theory Spec2Isabelle
  imports Main "HOL-Library.AList"
begin

section \<open>Values, failures and the HTTP world\<close>

text \<open>
  The client of \<^verbatim>\<open>query_umls.py\<close> talks to two web services and post-processes what
  they answer. What \<^verbatim>\<open>json.loads\<close> returns is a Python value built from
  \<^verbatim>\<open>None\<close>, booleans, numbers, strings, lists and dictionaries with string keys. A
  dictionary is kept as an association list in insertion order (the order matters for
  the columns of a table); \<open>map_of\<close> reads it. The client never computes with a
  number: an integer is kept as it is, and a finite float is named by its literal.
\<close>

datatype json =
    JNull
  | JBool bool
  | JNum int
  | JFloat string
  | JStr string
  | JList "json list"
  | JDict "(string \<times> json) list"

text \<open>
  Every exception the client can meet is a value. The client defines no exception class
  of its own and catches nothing, so each of these reaches the caller of the method in
  which it is raised. \<open>Unmodelled\<close> is no exception of Python: it marks the inputs
  of the table conversion on which this development does not say what pandas does.
\<close>

datatype error =
    RequestException
  | ParserError
  | JSONDecodeError
  | KeyError
  | IndexError
  | TypeError
  | ValueError
  | Unmodelled

text \<open>
  An HTML document as \<^verbatim>\<open>lxml.html.fromstring\<close> returns it: elements with a tag, their
  attributes and their children, and text nodes.
\<close>

datatype html =
    Element string "(string \<times> string) list" "html list"
  | Text string

datatype param = PStr string | PInt int | PNone

datatype request =
    Post string "(string \<times> string) list" "(string \<times> string) list"
  | Get string "(string \<times> param) list"

record response =
  status_code :: nat
  r_text :: string

type_synonym history = "(request \<times> (error + response)) list"

text \<open>
  The network is a function of the exchanges so far and the request sent: it answers
  with a response or the request raises. The two parsers the client calls on response
  bodies belong to libraries and are parameters as well.
\<close>

record env =
  server :: "history \<Rightarrow> request \<Rightarrow> error + response"
  fromstring :: "string \<Rightarrow> error + html"
  json_loads :: "string \<Rightarrow> error + json"

definition send :: "env \<Rightarrow> request \<Rightarrow> history \<Rightarrow> (error + response) \<times> history" where
  "send e req log = (server e log req, log @ [(req, server e log req)])"

section \<open>Class Authentication\<close>

definition uri :: string where
  "uri = ''https://utslogin.nlm.nih.gov''"

definition auth_endpoint :: string where
  "auth_endpoint = ''/cas/v1/api-key''"

record Authentication =
  apikey :: string
  service :: string

definition Authentication_init :: "string \<Rightarrow> Authentication" where
  "Authentication_init k = \<lparr>apikey = k, service = ''http://umlsks.nlm.nih.gov''\<rparr>"

definition h :: "(string \<times> string) list" where
  "h = [(''Content-type'', ''application/x-www-form-urlencoded''),
        (''Accept'', ''text/plain''),
        (''User-Agent'', ''python'')]"

text \<open>
  \<^verbatim>\<open>response.xpath('//form/@action')\<close>: the \<^verbatim>\<open>action\<close> attribute of every
  \<^verbatim>\<open>form\<close> element of the document, in document order.
\<close>

fun xpath_form_action :: "html \<Rightarrow> string list" where
  "xpath_form_action (Text s) = []"
| "xpath_form_action (Element tag attrs children) =
     (if tag = ''form''
      then (case map_of attrs ''action'' of Some a \<Rightarrow> [a] | None \<Rightarrow> [])
      else [])
     @ concat (map xpath_form_action children)"

text \<open>
  \<^verbatim>\<open>get_tgt\<close>: one POST of the API key to the gateway; the body of the response is
  parsed as HTML and element 0 of the form actions found in it is the granting ticket.
  The status of the response is not looked at.
\<close>

definition tgt_request :: "Authentication \<Rightarrow> request" where
  "tgt_request self = Post (uri @ auth_endpoint) [(''apikey'', apikey self)] h"

definition get_tgt :: "env \<Rightarrow> Authentication \<Rightarrow> history \<Rightarrow> (error + string) \<times> history" where
  "get_tgt e self log =
     (case send e (tgt_request self) log of
        (Inl x, log1) \<Rightarrow> (Inl x, log1)
      | (Inr r, log1) \<Rightarrow>
          (case fromstring e (r_text r) of
             Inl x \<Rightarrow> (Inl x, log1)
           | Inr response \<Rightarrow>
               (case xpath_form_action response of
                  [] \<Rightarrow> (Inl IndexError, log1)
                | tgt # rest \<Rightarrow> (Inr tgt, log1))))"

text \<open>
  \<^verbatim>\<open>get_st\<close>: one POST of the service name to the granting ticket; the body of the
  response is the service ticket.
\<close>

definition st_request :: "Authentication \<Rightarrow> string \<Rightarrow> request" where
  "st_request self tgt = Post tgt [(''service'', service self)] h"

definition get_st :: "env \<Rightarrow> Authentication \<Rightarrow> string \<Rightarrow> history \<Rightarrow> (error + string) \<times> history" where
  "get_st e self tgt log =
     (case send e (st_request self tgt) log of
        (Inl x, log1) \<Rightarrow> (Inl x, log1)
      | (Inr r, log1) \<Rightarrow> (Inr (r_text r), log1))"

section \<open>Python operations on parsed JSON\<close>

text \<open>\<^verbatim>\<open>x[k]\<close> for a string \<open>k\<close>: only a dictionary can be read with a string.\<close>

fun getitem :: "json \<Rightarrow> string \<Rightarrow> error + json" where
  "getitem (JDict d) k = (case map_of d k of None \<Rightarrow> Inl KeyError | Some v \<Rightarrow> Inr v)"
| "getitem x k = Inl TypeError"

text \<open>
  \<^verbatim>\<open>x[0]\<close>: the first element of a list, the first character of a string; an empty
  one raises IndexError; \<open>0\<close> is no key of a dictionary read from JSON, whose keys are
  strings; nothing else can be subscripted.
\<close>

fun getitem0 :: "json \<Rightarrow> error + json" where
  "getitem0 (JList []) = Inl IndexError"
| "getitem0 (JList (v # vs)) = Inr v"
| "getitem0 (JStr []) = Inl IndexError"
| "getitem0 (JStr (c # cs)) = Inr (JStr [c])"
| "getitem0 (JDict d) = Inl KeyError"
| "getitem0 x = Inl TypeError"

fun is_dict :: "json \<Rightarrow> bool" where
  "is_dict (JDict d) = True"
| "is_dict x = False"

text \<open>\<^verbatim>\<open>results.extend(x)\<close> appends what iterating over \<open>x\<close> gives.\<close>

fun list_extend :: "json list \<Rightarrow> json \<Rightarrow> error + json list" where
  "list_extend results (JList vs) = Inr (results @ vs)"
| "list_extend results (JStr cs) = Inr (results @ map (\<lambda>c. JStr [c]) cs)"
| "list_extend results (JDict d) = Inr (results @ map (\<lambda>kv. JStr (fst kv)) d)"
| "list_extend results x = Inl TypeError"

fun startswith :: "string \<Rightarrow> string \<Rightarrow> bool" where
  "startswith s [] = True"
| "startswith [] (p # ps) = False"
| "startswith (c # s) (p # ps) = (c = p \<and> startswith s ps)"

fun substring_in :: "string \<Rightarrow> string \<Rightarrow> bool" where
  "substring_in k [] = (k = [])"
| "substring_in k (c # s) = (startswith (c # s) k \<or> substring_in k s)"

text \<open>
  \<^verbatim>\<open>k in x\<close> for a string \<open>k\<close>: a key of a dictionary, an element of a list, a
  substring of a string; the other values are not iterable.
\<close>

fun contains :: "json \<Rightarrow> string \<Rightarrow> error + bool" where
  "contains (JDict d) k = Inr (k \<in> set (map fst d))"
| "contains (JList vs) k = Inr (JStr k \<in> set vs)"
| "contains (JStr s) k = Inr (substring_in k s)"
| "contains x k = Inl TypeError"

text \<open>
  \<^verbatim>\<open>xs[0:n]\<close>: the first \<open>n\<close> elements, and for a negative \<open>n\<close> all but the last
  \<open>-n\<close>.
\<close>

definition slice0 :: "'a list \<Rightarrow> int \<Rightarrow> 'a list" where
  "slice0 xs n = (if 0 \<le> n then take (nat n) xs else take (nat (int (length xs) + n)) xs)"

section \<open>Tables\<close>

text \<open>
  The fragment of pandas that \<^verbatim>\<open>get_df\<close> uses. A table has column labels (strings,
  or integers where pandas numbers the entries of an unlabelled series) and rows; a row
  gives a cell to every column, in the order of the columns. A cell holds a value as it
  was parsed, or is missing (NaN), or holds the float that pandas made of an integer
  (\<open>Flt i\<close> is \<^verbatim>\<open>float(i)\<close>).
\<close>

datatype label = LStr string | LInt int

datatype cell = Val json | NaN | Flt int

record DataFrame =
  columns :: "label list"
  rows :: "(label \<times> cell) list list"


text \<open>The labels of several series in the order in which they first appear.\<close>

definition first_seen :: "'a list \<Rightarrow> 'a list" where
  "first_seen xs = rev (remdups (rev xs))"

text \<open>
  When pandas builds a column or a series from Python objects it looks at all of them
  and may store them in another form. What it does is the same in every version in
  these cases: a column without \<^verbatim>\<open>None\<close> and without a missing value is kept as it
  is, unless it mixes integers with floats; a column all of whose values are numbers,
  but for \<^verbatim>\<open>None\<close> and missing values, is a column of floats when it has a
  \<^verbatim>\<open>None\<close>, a missing value or a float, with NaN for both \<^verbatim>\<open>None\<close> and a missing
  value (for integers of 64 bits); a column that holds a list or a dictionary is kept as
  it is, \<^verbatim>\<open>None\<close> included; a column without \<^verbatim>\<open>None\<close> that is not all numbers is
  kept as it is. What becomes of \<^verbatim>\<open>None\<close> in the other columns depends on the version
  of pandas: such a column is outside the fragment.
\<close>

datatype conversion = Keep | ToFloat | Outside

fun is_number :: "cell \<Rightarrow> bool" where
  "is_number (Val (JNum i)) = True"
| "is_number (Val (JFloat s)) = True"
| "is_number (Flt i) = True"
| "is_number c = False"

fun is_float :: "cell \<Rightarrow> bool" where
  "is_float (Flt i) = True"
| "is_float (Val (JFloat s)) = True"
| "is_float c = False"

fun is_object :: "cell \<Rightarrow> bool" where
  "is_object (Val (JList vs)) = True"
| "is_object (Val (JDict d)) = True"
| "is_object c = False"

fun in_int64 :: "cell \<Rightarrow> bool" where
  "in_int64 (Val (JNum i)) = (- (2 ^ 63) \<le> i \<and> i < 2 ^ 63)"
| "in_int64 c = True"

fun to_float :: "cell \<Rightarrow> cell" where
  "to_float (Val (JNum i)) = Flt i"
| "to_float (Val JNull) = NaN"
| "to_float c = c"

definition conversion_of :: "cell list \<Rightarrow> conversion" where
  "conversion_of cs =
     (if filter (\<lambda>c. c \<noteq> Val JNull \<and> c \<noteq> NaN) cs \<noteq> [] \<and>
         list_all is_number (filter (\<lambda>c. c \<noteq> Val JNull \<and> c \<noteq> NaN) cs)
      then (if Val JNull \<in> set cs \<or> NaN \<in> set cs \<or> list_ex is_float cs
            then (if list_all in_int64 cs then ToFloat else Outside)
            else Keep)
      else if Val JNull \<in> set cs \<and> \<not> list_ex is_object cs then Outside
      else Keep)"

fun convert :: "conversion \<Rightarrow> cell \<Rightarrow> cell" where
  "convert ToFloat c = to_float c"
| "convert k c = c"

definition converted :: "cell list \<Rightarrow> cell list option" where
  "converted cs =
     (case conversion_of cs of
        Outside \<Rightarrow> None
      | k \<Rightarrow> Some (map (convert k) cs))"

text \<open>The cell of a labelled series under a label: NaN when the series has no such label.\<close>

definition lookup_cell :: "(label \<times> cell) list \<Rightarrow> label \<Rightarrow> cell" where
  "lookup_cell s c = (case map_of s c of Some v \<Rightarrow> v | None \<Rightarrow> NaN)"

definition raw_column :: "(label \<times> cell) list list \<Rightarrow> label \<Rightarrow> cell list" where
  "raw_column ss c = map (\<lambda>s. lookup_cell s c) ss"

text \<open>
  A table from a list of labelled series, one row each: its columns are the labels in
  the order in which they first appear, a series without a label has NaN there, and
  every column is stored in the form pandas gives it.
\<close>

definition frame_of_series :: "(label \<times> cell) list list \<Rightarrow> error + DataFrame" where
  "frame_of_series ss =
     (let cols = first_seen (concat (map (map fst) ss))
      in if list_all (\<lambda>c. conversion_of (raw_column ss c) \<noteq> Outside) cols
         then Inr \<lparr>columns = cols,
                   rows = map (\<lambda>s. map (\<lambda>c. (c, convert (conversion_of (raw_column ss c))
                                                    (lookup_cell s c))) cols) ss\<rparr>
         else Inl Unmodelled)"

fun dict_of :: "json \<Rightarrow> (string \<times> json) list" where
  "dict_of (JDict d) = d"
| "dict_of x = []"

definition series_of_dict :: "(string \<times> json) list \<Rightarrow> (label \<times> cell) list" where
  "series_of_dict d = map (\<lambda>kv. (LStr (fst kv), Val (snd kv))) d"

text \<open>
  \<^verbatim>\<open>pd.DataFrame(json_data)\<close> for a list: no record gives the empty table, a list of
  dictionaries gives one row per dictionary. What pandas makes of a list that holds
  another value depends on its version: such a list is outside the fragment.
\<close>

definition pd_DataFrame :: "json list \<Rightarrow> error + DataFrame" where
  "pd_DataFrame json_data =
     (case json_data of
        [] \<Rightarrow> Inr \<lparr>columns = [], rows = []\<rparr>
      | first # others \<Rightarrow>
          if list_all is_dict json_data
          then frame_of_series (map (\<lambda>x. series_of_dict (dict_of x)) json_data)
          else Inl Unmodelled)"

text \<open>\<^verbatim>\<open>df[c]\<close> for a column that exists: its cells, one per row.\<close>

definition column :: "DataFrame \<Rightarrow> label \<Rightarrow> cell list" where
  "column df c = map (\<lambda>r. lookup_cell r c) (rows df)"

text \<open>
  \<^verbatim>\<open>.str[0]\<close> on a column whose present values are lists: element 0 of a list, NaN for
  an empty list; \<^verbatim>\<open>None\<close> and a missing value are left as they are. A column with a
  present value that is no list is outside the fragment.
\<close>

fun str_get0 :: "cell \<Rightarrow> error + cell" where
  "str_get0 NaN = Inr NaN"
| "str_get0 (Val (JList [])) = Inr NaN"
| "str_get0 (Val (JList (v # vs))) = Inr (Val v)"
| "str_get0 (Val JNull) = Inr (Val JNull)"
| "str_get0 c = Inl Unmodelled"

fun sequence :: "(error + 'a) list \<Rightarrow> error + 'a list" where
  "sequence [] = Inr []"
| "sequence (Inl x # rs) = Inl x"
| "sequence (Inr v # rs) = (case sequence rs of Inl x \<Rightarrow> Inl x | Inr vs \<Rightarrow> Inr (v # vs))"

text \<open>
  \<^verbatim>\<open>pd.Series(x)\<close>: a dictionary gives its keys as labels, a list numbers its
  elements from 0, both with their values in the form pandas gives a column;
  \<^verbatim>\<open>None\<close> gives the empty series, and NaN or any other single value gives one entry
  labelled 0.
\<close>

fun pd_Series :: "cell \<Rightarrow> (label \<times> cell) list option" where
  "pd_Series NaN = Some [(LInt 0, NaN)]"
| "pd_Series (Flt i) = Some [(LInt 0, Flt i)]"
| "pd_Series (Val (JDict d)) =
     map_option (zip (map (\<lambda>kv. LStr (fst kv)) d)) (converted (map (\<lambda>kv. Val (snd kv)) d))"
| "pd_Series (Val (JList vs)) =
     map_option (zip (map (\<lambda>i. LInt (int i)) [0..<length vs])) (converted (map Val vs))"
| "pd_Series (Val JNull) = Some []"
| "pd_Series (Val x) = Some [(LInt 0, Val x)]"

text \<open>
  The table that \<^verbatim>\<open>.apply(pd.Series)\<close> makes of the series it got, one row each.
  pandas stacks the series before it looks at the columns, and what becomes of a number
  or a boolean then depends on the other series and on the other entries of its own: a
  series that holds a number or a boolean is outside the fragment.
\<close>

fun is_typed :: "cell \<Rightarrow> bool" where
  "is_typed (Val (JBool b)) = True"
| "is_typed c = is_number c"

definition frame_of_aligned :: "(label \<times> cell) list list \<Rightarrow> error + DataFrame" where
  "frame_of_aligned ss =
     (if list_ex (\<lambda>s. list_ex (\<lambda>lc. is_typed (snd lc)) s) ss
      then Inl Unmodelled
      else frame_of_series ss)"

text \<open>
  \<^verbatim>\<open>df[c] = cells\<close>: an existing column is overwritten in place, a new one is added
  on the right.
\<close>

definition set_column :: "DataFrame \<Rightarrow> label \<Rightarrow> cell list \<Rightarrow> DataFrame" where
  "set_column df c cells =
     \<lparr>columns = (if c \<in> set (columns df) then columns df else columns df @ [c]),
      rows = map (\<lambda>rv. AList.update c (snd rv) (fst rv)) (zip (rows df) cells)\<rparr>"

text \<open>
  \<^verbatim>\<open>df[[c1, c2]] = value\<close> for a table \<open>value\<close>: pandas refuses a value whose number
  of columns is not two, and otherwise assigns its columns by position.
\<close>

definition setitem2 :: "DataFrame \<Rightarrow> label \<Rightarrow> label \<Rightarrow> DataFrame \<Rightarrow> error + DataFrame" where
  "setitem2 df c1 c2 val =
     (case columns val of
        [k1, k2] \<Rightarrow> Inr (set_column (set_column df c1 (column val k1)) c2 (column val k2))
      | ks \<Rightarrow> Inl ValueError)"

text \<open>\<^verbatim>\<open>df.drop(c, inplace=True, axis=1)\<close> for a column that exists.\<close>

definition drop_column :: "DataFrame \<Rightarrow> label \<Rightarrow> DataFrame" where
  "drop_column df c =
     \<lparr>columns = filter (\<lambda>x. x \<noteq> c) (columns df),
      rows = map (AList.delete c) (rows df)\<rparr>"

text \<open>
  \<^verbatim>\<open>get_df\<close>: the table of the records; when it has a \<^verbatim>\<open>semanticTypes\<close> column,
  element 0 of each cell of that column is expanded into a series, the series make a
  table of their own, whose columns are assigned to \<^verbatim>\<open>semantic_type\<close> and
  \<^verbatim>\<open>TUI\<close>, and the column is dropped.
\<close>

definition get_df :: "json list \<Rightarrow> error + DataFrame" where
  "get_df json_data =
     (case pd_DataFrame json_data of
        Inl x \<Rightarrow> Inl x
      | Inr df \<Rightarrow>
          if LStr ''semanticTypes'' \<in> set (columns df)
          then (case sequence (map str_get0 (column df (LStr ''semanticTypes''))) of
                  Inl x \<Rightarrow> Inl x
                | Inr picked \<Rightarrow>
                    (case converted picked of
                       None \<Rightarrow> Inl Unmodelled
                     | Some firsts \<Rightarrow>
                         (case those (map pd_Series firsts) of
                            None \<Rightarrow> Inl Unmodelled
                          | Some ss \<Rightarrow>
                              (case frame_of_aligned ss of
                                 Inl x \<Rightarrow> Inl x
                               | Inr val \<Rightarrow>
                                   (case setitem2 df (LStr ''semantic_type'') (LStr ''TUI'') val of
                                      Inl x \<Rightarrow> Inl x
                                    | Inr df2 \<Rightarrow> Inr (drop_column df2 (LStr ''semanticTypes'')))))))
          else Inr df)"

section \<open>Class searchUMLS\<close>

record searchUMLS =
  apikey :: string
  auth :: Authentication

definition searchUMLS_init :: "string \<Rightarrow> searchUMLS" where
  "searchUMLS_init k = \<lparr>apikey = k, auth = Authentication_init k\<rparr>"

datatype returned = Records "json list" | Table DataFrame

definition rest_uri :: string where
  "rest_uri = ''https://uts-ws.nlm.nih.gov/rest/''"

definition query :: "string \<Rightarrow> string \<Rightarrow> nat \<Rightarrow> string option \<Rightarrow> string \<Rightarrow> (string \<times> param) list" where
  "query search_str service_ticket page vocab id_type =
     [(''string'', PStr search_str),
      (''ticket'', PStr service_ticket),
      (''pageNumber'', PInt (int page)),
      (''sabs'', (case vocab of None \<Rightarrow> PNone | Some v \<Rightarrow> PStr v)),
      (''returnIdType'', PStr id_type)]"

definition page_request :: "string \<Rightarrow> string \<Rightarrow> nat \<Rightarrow> string option \<Rightarrow> string \<Rightarrow> request" where
  "page_request search_str service_ticket page vocab id_type =
     Get (rest_uri @ ''search/current'') (query search_str service_ticket page vocab id_type)"

text \<open>
  The \<^verbatim>\<open>while True\<close> loop of \<^verbatim>\<open>search_term\<close>. \<open>page\<close> and \<open>results\<close> are the
  loop's variables on entry to an iteration; \<open>n\<close> is \<^verbatim>\<open>int(num_results)\<close>. Each
  \<^verbatim>\<open>break\<close> returns the results gathered, each exception returns the error.
\<close>

function search_term_loop ::
  "env \<Rightarrow> Authentication \<Rightarrow> string \<Rightarrow> string \<Rightarrow> string option \<Rightarrow> string \<Rightarrow> int \<Rightarrow>
   nat \<Rightarrow> json list \<Rightarrow> history \<Rightarrow> (error + json list) \<times> history" where
  "search_term_loop e a tgt search_str vocab id_type n page results log =
     (case get_st e a tgt log of
        (Inl x, log1) \<Rightarrow> (Inl x, log1)
      | (Inr service_ticket, log1) \<Rightarrow>
          (case send e (page_request search_str service_ticket (page + 1) vocab id_type) log1 of
             (Inl x, log2) \<Rightarrow> (Inl x, log2)
           | (Inr r, log2) \<Rightarrow>
               (case json_loads e (r_text r) of
                  Inl x \<Rightarrow> (Inl x, log2)
                | Inr items \<Rightarrow>
                    (case getitem items ''result'' of
                       Inl x \<Rightarrow> (Inl x, log2)
                     | Inr json_data \<Rightarrow>
                         if is_dict json_data
                         then (case getitem json_data ''results'' of
                                 Inl x \<Rightarrow> (Inl x, log2)
                               | Inr page_results \<Rightarrow>
                                   (case getitem0 page_results of
                                      Inl x \<Rightarrow> (Inl x, log2)
                                    | Inr first \<Rightarrow>
                                        (case getitem first ''ui'' of
                                           Inl x \<Rightarrow> (Inl x, log2)
                                         | Inr ui \<Rightarrow>
                                             if ui = JStr ''NONE''
                                             then (Inr results, log2)
                                             else (case list_extend results page_results of
                                                     Inl x \<Rightarrow> (Inl x, log2)
                                                   | Inr results2 \<Rightarrow>
                                                       if n \<le> int (length results2)
                                                       then (Inr results2, log2)
                                                       else search_term_loop e a tgt search_str vocab
                                                              id_type n (page + 1) results2 log2))))
                         else (Inr results, log2)))))"
  by pat_completeness auto
termination
proof (relation "measure (\<lambda>(e, a, tgt, search_str, vocab, id_type, n, page, results, log).
                            nat (n - int (length results)))", goal_cases)
  case 1
  show ?case by simp
next
  case (2 e a tgt search_str vocab id_type n page results log x1 log1 service_ticket x2 log2
          r items json_data page_results first ui results2)
  have grow: "length results < length results2"
    using \<open>getitem0 page_results = Inr first\<close> \<open>list_extend results page_results = Inr results2\<close>
    by (cases page_results rule: getitem0.cases) auto
  with \<open>\<not> n \<le> int (length results2)\<close> show ?case by simp
qed

text \<open>
  \<^verbatim>\<open>search_term\<close>, with \<open>n\<close> for \<^verbatim>\<open>int(num_results)\<close>: one granting ticket, the
  loop over the pages from page 0 and no results, the slice \<^verbatim>\<open>results[0:n]\<close>, and the
  table conversion when \<^verbatim>\<open>as_df\<close> is set.
\<close>

definition search_term ::
  "env \<Rightarrow> searchUMLS \<Rightarrow> string \<Rightarrow> string option \<Rightarrow> string \<Rightarrow> int \<Rightarrow> bool \<Rightarrow> history \<Rightarrow>
   (error + returned) \<times> history" where
  "search_term e self search_str vocab id_type n as_df log =
     (case get_tgt e (auth self) log of
        (Inl x, log1) \<Rightarrow> (Inl x, log1)
      | (Inr tgt, log1) \<Rightarrow>
          (case search_term_loop e (auth self) tgt search_str vocab id_type n 0 [] log1 of
             (Inl x, log2) \<Rightarrow> (Inl x, log2)
           | (Inr results, log2) \<Rightarrow>
               if as_df
               then (case get_df (slice0 results n) of
                       Inl x \<Rightarrow> (Inl x, log2)
                     | Inr df \<Rightarrow> (Inr (Table df), log2))
               else (Inr (Records (slice0 results n)), log2)))"




section \<open>Notions used to state the properties\<close>

text \<open>The elements of a document, each before its descendants, in document order.\<close>

fun elements :: "html \<Rightarrow> html list" where
  "elements (Text s) = []"
| "elements (Element tag attrs children) =
     Element tag attrs children # concat (map elements children)"

text \<open>The \<^verbatim>\<open>action\<close> attribute of a node that is a \<^verbatim>\<open>form\<close> element with one.\<close>

fun form_action :: "html \<Rightarrow> string option" where
  "form_action (Element tag attrs children) =
     (if tag = ''form'' then map_of attrs ''action'' else None)"
| "form_action (Text s) = None"


text \<open>
  An example service. The gateway hands out a granting ticket for the key
  \<^verbatim>\<open>good-key\<close> and an error page for any other key, and a service ticket for every
  granting ticket. The search service knows a few search strings and the content service
  two concept identifiers. Response bodies are short tokens, and the two parsers map a
  token to the document or value it stands for.
\<close>

definition ticket_page :: html where
  "ticket_page =
     Element ''html'' []
       [Element ''head'' [] [Element ''title'' [] [Text ''201 Created'']],
        Element ''body'' []
          [Element ''h1'' [] [Text ''TGT Created''],
           Element ''form'' [(''action'', ''https://utslogin.nlm.nih.gov/cas/v1/api-key/TGT-1''),
                            (''method'', ''POST'')]
             [Element ''input'' [(''type'', ''submit'')] []]]]"

definition error_page :: html where
  "error_page =
     Element ''html'' []
       [Element ''body'' [] [Element ''p'' [] [Text ''Invalid API key'']]]"

definition example_fromstring :: "string \<Rightarrow> error + html" where
  "example_fromstring s =
     (if s = [] then Inl ParserError
      else if s = ''FORM'' then Inr ticket_page
      else Inr error_page)"

definition concept :: "string \<Rightarrow> string \<Rightarrow> json" where
  "concept ui name = JDict [(''ui'', JStr ui), (''rootSource'', JStr ''MTH''), (''name'', JStr name)]"

definition result_page :: "json list \<Rightarrow> json" where
  "result_page rs =
     JDict [(''pageSize'', JNum 25), (''pageNumber'', JNum 1),
            (''result'', JDict [(''classType'', JStr ''searchResults''), (''results'', JList rs)])]"

definition concept_record :: "string \<Rightarrow> string \<Rightarrow> string \<Rightarrow> string \<Rightarrow> json" where
  "concept_record ui name st tui =
     JDict [(''ui'', JStr ui), (''name'', JStr name),
            (''semanticTypes'', JList [JDict [(''name'', JStr st), (''ui'', JStr tui)]])]"

definition fracture :: json where
  "fracture = concept_record ''C0009044'' ''Closed fracture of carpal bone'' ''Injury or Poisoning'' ''T037''"

definition kidney_stone :: json where
  "kidney_stone = concept_record ''C2097260'' ''Kidney stone'' ''Disease or Syndrome'' ''T047''"

definition content :: "json \<Rightarrow> (string \<times> json) list" where
  "content c = [(''pageSize'', JNum 25), (''result'', c)]"

definition not_found :: "(string \<times> json) list" where
  "not_found = [(''name'', JStr ''NotFoundError''), (''status'', JNum 404), (''error'', JStr ''No results'')]"

definition example_json_loads :: "string \<Rightarrow> error + json" where
  "example_json_loads s =
     (if s = ''P1'' then Inr (result_page [concept ''C0022650'' ''Kidney Calculi'',
                                          concept ''C0392525'' ''Nephrolithiasis''])
      else if s = ''P2'' then Inr (result_page [concept ''C0041952'' ''Ureteral Calculi''])
      else if s = ''NONE'' then Inr (result_page [JDict [(''ui'', JStr ''NONE''), (''name'', JStr ''NO RESULTS'')]])
      else if s = ''EMPTY'' then Inr (result_page [])
      else if s = ''END'' then Inr (JDict [(''result'', JList [])])
      else if s = ''R1'' then Inr (JDict (content fracture))
      else if s = ''R2'' then Inr (JDict (content kidney_stone))
      else if s = ''ERR'' then Inr (JDict not_found)
      else Inl JSONDecodeError)"

definition ok :: "string \<Rightarrow> error + response" where
  "ok s = Inr \<lparr>status_code = 200, r_text = s\<rparr>"

definition example_search :: "string \<Rightarrow> int \<Rightarrow> string" where
  "example_search s page =
     (if s = ''kidney stone'' then (if page = 1 then ''P1'' else if page = 2 then ''P2'' else ''NONE'')
      else if s = ''ureter'' then (if page = 1 then ''P2'' else ''END'')
      else if s = ''broken'' then (if page = 1 then ''P1'' else ''EMPTY'')
      else ''NONE'')"

definition example_server :: "history \<Rightarrow> request \<Rightarrow> error + response" where
  "example_server log req =
     (case req of
        Post url data headers \<Rightarrow>
          (if map_of data ''apikey'' = Some ''good-key'' then ok ''FORM''
           else if map_of data ''service'' = None then ok ''DENIED''
           else ok ''ST-1'')
      | Get url params \<Rightarrow>
          (case map_of params ''string'' of
             Some (PStr s) \<Rightarrow>
               (case map_of params ''pageNumber'' of
                  Some (PInt page) \<Rightarrow> ok (example_search s page)
                | other \<Rightarrow> Inl RequestException)
           | other \<Rightarrow>
               (if url = rest_uri @ ''content/current/CUI/C0009044'' then ok ''R1''
                else if url = rest_uri @ ''content/current/CUI/C2097260'' then ok ''R2''
                else ok ''ERR'')))"

definition example :: env where
  "example = \<lparr>server = example_server, fromstring = example_fromstring,
              json_loads = example_json_loads\<rparr>"

text \<open>
  The matching rows a result payload holds: the results of a page object, unless its
  first result is the record that says there are none.
\<close>

fun matches :: "json \<Rightarrow> json list" where
  "matches (JDict d) =
     (case map_of d ''results'' of
        Some (JList (first # others)) \<Rightarrow>
          (if getitem first ''ui'' = Inr (JStr ''NONE'') then [] else first # others)
      | other \<Rightarrow> [])"
| "matches x = []"

text \<open>The matching rows that one exchange with the service supplied to the client.\<close>

fun supplied :: "env \<Rightarrow> request \<times> (error + response) \<Rightarrow> json list" where
  "supplied e (Get url params, Inr r) =
     (case json_loads e (r_text r) of
        Inr items \<Rightarrow> (case getitem items ''result'' of Inr json_data \<Rightarrow> matches json_data | Inl x \<Rightarrow> [])
      | Inl x \<Rightarrow> [])"
| "supplied e other = []"



text \<open>A payload that is a page object whose list of results is empty.\<close>

fun empty_payload :: "json \<Rightarrow> bool" where
  "empty_payload (JDict d) = (map_of d ''results'' = Some (JList []))"
| "empty_payload x = False"

text \<open>An exchange that fetched such a page.\<close>

fun empty_page :: "env \<Rightarrow> request \<times> (error + response) \<Rightarrow> bool" where
  "empty_page e (Get url params, Inr r) =
     (case json_loads e (r_text r) of
        Inr items \<Rightarrow>
          (case getitem items ''result'' of Inr json_data \<Rightarrow> empty_payload json_data | Inl x \<Rightarrow> False)
      | Inl x \<Rightarrow> False)"
| "empty_page e other = False"


declare search_term_loop.simps [simp del]

text \<open>
  The record that one exchange with the content service resolved: the \<^verbatim>\<open>result\<close> of
  an answer that holds no \<^verbatim>\<open>error\<close>.
\<close>

fun resolved :: "env \<Rightarrow> request \<times> (error + response) \<Rightarrow> json list" where
  "resolved e (Get url params, Inr r) =
     (case json_loads e (r_text r) of
        Inr items \<Rightarrow>
          (if contains items ''error'' = Inr False
           then (case getitem items ''result'' of Inr v \<Rightarrow> [v] | Inl x \<Rightarrow> [])
           else [])
      | Inl x \<Rightarrow> [])"
| "resolved e other = []"





text \<open>
  A value that a table stores as it is in every column: a string, a boolean, a list or a
  dictionary.
\<close>

fun plain :: "json \<Rightarrow> bool" where
  "plain (JStr s) = True"
| "plain (JBool b) = True"
| "plain (JList vs) = True"
| "plain (JDict d) = True"
| "plain x = False"














chapter \<open>Properties\<close>

section \<open>The ticket authenticator\<close>

lemma xpath_form_action_elements:
  "xpath_form_action doc = List.map_filter form_action (elements doc)"
proof (induction doc)
  case (Element tag attrs children)
  have "concat (map xpath_form_action children)
          = concat (map (\<lambda>c. List.map_filter form_action (elements c)) children)"
    using Element.IH by (induction children) auto
  also have "\<dots> = List.map_filter form_action (concat (map elements children))"
    by (induction children) (auto simp: map_filter_def)
  finally show ?case
    by (auto simp: map_filter_def split: option.splits)
next
  case (Text s)
  show ?case by (simp add: map_filter_def)
qed




text \<open>
  C5, as the specification states it: \<^verbatim>\<open>get_tgt\<close> fails with an AuthError when the
  body of the gateway's response holds no form with an action. The client defines no
  such error and raises none: for the error page that answers an invalid key, the
  failure is the IndexError of reading element 0 of an empty list of matches.
\<close>

theorem get_tgt_index_error_counterexample:
  "fst (get_tgt example (Authentication_init ''bad-key'') []) = Inl IndexError"
  by code_simp

text \<open>
  C5, amended: \<^verbatim>\<open>get_tgt\<close> fails whenever the body of the gateway's response holds no
  \<^verbatim>\<open>form\<close> element with an \<^verbatim>\<open>action\<close> attribute: with the HTML parser's own
  error when the body is no document, and with IndexError otherwise. When the body
  holds such a form, the \<^verbatim>\<open>action\<close> of the first one in document order is returned
  as the granting ticket.
\<close>

theorem get_tgt_form_action:
  assumes "server e log (tgt_request self) = Inr r"
  shows "(\<forall>x. fromstring e (r_text r) = Inl x \<longrightarrow> fst (get_tgt e self log) = Inl x) \<and>
         (\<forall>doc. fromstring e (r_text r) = Inr doc \<and> (\<forall>f \<in> set (elements doc). form_action f = None)
            \<longrightarrow> fst (get_tgt e self log) = Inl IndexError) \<and>
         (\<forall>doc before f after a.
            fromstring e (r_text r) = Inr doc \<and> elements doc = before @ f # after \<and>
            (\<forall>x \<in> set before. form_action x = None) \<and> form_action f = Some a
            \<longrightarrow> fst (get_tgt e self log) = Inr a)"
proof (intro conjI allI impI)
  fix x assume "fromstring e (r_text r) = Inl x"
  with assms show "fst (get_tgt e self log) = Inl x"
    by (simp add: get_tgt_def send_def)
next
  fix doc
  assume a: "fromstring e (r_text r) = Inr doc \<and> (\<forall>f \<in> set (elements doc). form_action f = None)"
  then have "xpath_form_action doc = []"
    by (simp add: xpath_form_action_elements map_filter_def filter_empty_conv)
  with assms a show "fst (get_tgt e self log) = Inl IndexError"
    by (simp add: get_tgt_def send_def)
next
  fix doc before f after a
  assume a: "fromstring e (r_text r) = Inr doc \<and> elements doc = before @ f # after \<and>
             (\<forall>x \<in> set before. form_action x = None) \<and> form_action f = Some a"
  then have "filter (\<lambda>x. form_action x \<noteq> None) before = []"
    by (simp add: filter_empty_conv)
  with a have "xpath_form_action doc
                 = a # List.map_filter form_action after"
    by (simp add: xpath_form_action_elements map_filter_def)
  with assms a show "fst (get_tgt e self log) = Inr a"
    by (simp add: get_tgt_def send_def)
qed

theorem get_tgt_form_action_witness:
  "fst (get_tgt example (Authentication_init ''good-key'') [])
     = Inr ''https://utslogin.nlm.nih.gov/cas/v1/api-key/TGT-1'' \<and>
   fst (get_tgt example (Authentication_init ''bad-key'') []) = Inl IndexError"
proof
  let ?good = "Authentication_init ''good-key''"
  let ?form = "Element ''form'' [(''action'', ''https://utslogin.nlm.nih.gov/cas/v1/api-key/TGT-1''),
                                 (''method'', ''POST'')]
                 [Element ''input'' [(''type'', ''submit'')] []]"
  have srv: "server example [] (tgt_request ?good) = Inr \<lparr>status_code = 200, r_text = ''FORM''\<rparr>"
    by (simp add: example_def example_server_def tgt_request_def Authentication_init_def ok_def)
  have doc: "fromstring example ''FORM'' = Inr ticket_page"
    by (simp add: example_def example_fromstring_def)
  have els: "elements ticket_page
               = [ticket_page, Element ''head'' [] [Element ''title'' [] [Text ''201 Created'']],
                  Element ''title'' [] [Text ''201 Created''],
                  Element ''body'' []
                    [Element ''h1'' [] [Text ''TGT Created''], ?form],
                  Element ''h1'' [] [Text ''TGT Created'']]
                 @ ?form # [Element ''input'' [(''type'', ''submit'')] []]"
    by (simp add: ticket_page_def)
  note third = conjunct2 [OF conjunct2 [OF get_tgt_form_action [OF srv]]]
  show "fst (get_tgt example ?good []) = Inr ''https://utslogin.nlm.nih.gov/cas/v1/api-key/TGT-1''"
  proof (rule third [rule_format])
    show "fromstring example (r_text \<lparr>status_code = 200, r_text = ''FORM''\<rparr>) = Inr ticket_page \<and>
          elements ticket_page
            = [ticket_page, Element ''head'' [] [Element ''title'' [] [Text ''201 Created'']],
               Element ''title'' [] [Text ''201 Created''],
               Element ''body'' [] [Element ''h1'' [] [Text ''TGT Created''], ?form],
               Element ''h1'' [] [Text ''TGT Created'']]
              @ ?form # [Element ''input'' [(''type'', ''submit'')] []] \<and>
          (\<forall>x \<in> set [ticket_page, Element ''head'' [] [Element ''title'' [] [Text ''201 Created'']],
               Element ''title'' [] [Text ''201 Created''],
               Element ''body'' [] [Element ''h1'' [] [Text ''TGT Created''], ?form],
               Element ''h1'' [] [Text ''TGT Created'']]. form_action x = None) \<and>
          form_action ?form = Some ''https://utslogin.nlm.nih.gov/cas/v1/api-key/TGT-1''"
      using doc els by (simp add: ticket_page_def)
  qed
next
  let ?bad = "Authentication_init ''bad-key''"
  have srv: "server example [] (tgt_request ?bad) = Inr \<lparr>status_code = 200, r_text = ''DENIED''\<rparr>"
    by (simp add: example_def example_server_def tgt_request_def Authentication_init_def ok_def)
  have doc: "fromstring example ''DENIED'' = Inr error_page"
    by (simp add: example_def example_fromstring_def)
  have none: "\<forall>f \<in> set (elements error_page). form_action f = None"
    by (simp add: error_page_def)
  note second = conjunct1 [OF conjunct2 [OF get_tgt_form_action [OF srv]]]
  show "fst (get_tgt example ?bad []) = Inl IndexError"
    by (rule second [rule_format, of error_page]) (simp add: doc none)
qed

section \<open>Properties of tables\<close>

lemma set_first_seen [simp]: "set (first_seen xs) = set xs"
  by (simp add: first_seen_def)

lemma distinct_first_seen [simp]: "distinct (first_seen xs)"
  by (simp add: first_seen_def)



lemma convert_plain [simp]: "plain v \<Longrightarrow> convert k (Val v) = Val v"
  by (cases k; cases v) simp_all

lemma convert_NaN [simp]: "convert k NaN = NaN"
  by (cases k) simp_all




lemma sequence_map:
  "(\<And>c. c \<in> set cs \<Longrightarrow> f c = Inr (g c)) \<Longrightarrow> sequence (map f cs) = Inr (map g cs)"
  by (induction cs) auto





lemma map_of_series_of_dict_int [simp]: "map_of (series_of_dict d) (LInt i) = None"
  by (induction d) (auto simp: series_of_dict_def)















section \<open>Term search\<close>

lemma get_st_log:
  "get_st e a tgt log = (res, log1) \<Longrightarrow>
     log1 = log @ [(st_request a tgt, server e log (st_request a tgt))]"
  by (auto simp: get_st_def send_def split: sum.splits)

lemma get_tgt_log:
  "get_tgt e a log = (res, log1) \<Longrightarrow>
     log1 = log @ [(tgt_request a, server e log (tgt_request a))]"
  by (auto simp: get_tgt_def send_def split: sum.splits list.splits)

lemma supplied_post [simp]: "supplied e (Post url d hs, res) = []"
  by simp




lemma send_log: "send e req log = (res, log1) \<Longrightarrow> log1 = log @ [(req, res)]"
  by (auto simp: send_def)

lemma get_st_log2:
  "get_st e a tgt log = (res, log1) \<Longrightarrow> \<exists>x. log1 = log @ [(st_request a tgt, x)]"
  by (auto simp: get_st_def send_def split: sum.splits)




lemma empty_payloadD:
  "empty_payload json_data \<Longrightarrow> \<exists>d. json_data = JDict d \<and> map_of d ''results'' = Some (JList [])"
  by (cases json_data) auto

lemma search_term_loop_empty_page:
  "search_term_loop e a tgt s vocab idt n page results log = (res, log') \<Longrightarrow>
     \<exists>new. log' = log @ new \<and> ((\<exists>ex \<in> set new. empty_page e ex) \<longrightarrow> res = Inl IndexError)"
proof (induction e a tgt s vocab idt n page results log rule: search_term_loop.induct)
  case (1 e a tgt s vocab idt n page results log)
  show ?case
    using "1.prems" "1.IH"
    apply (subst (asm) search_term_loop.simps)
    apply (auto split: sum.splits prod.splits if_splits dest!: get_st_log2 send_log empty_payloadD
                simp: st_request_def page_request_def)
    subgoal premises p for st r items json_data page_results first ui results2 x
      using p(1) [OF refl refl refl refl refl p(3) p(8) p(4) p(5) p(6) p(9) p(7) p(10) p(11)]
            p(2-6)
      by (auto dest!: empty_payloadD)
    done
qed














text \<open>
  C2: when the first page fetched by a term search is a page object whose first result
  has the identifier \<^verbatim>\<open>NONE\<close>, the search stops after that page and returns the empty
  table (the empty list when no table is asked for), whatever the number of results
  asked for.
\<close>

theorem search_term_sentinel:
  assumes "get_tgt e (auth self) log = (Inr tgt, log1)"
    and "get_st e (auth self) tgt log1 = (Inr st, log2)"
    and "server e log2 (page_request s st 1 vocab idt) = Inr r"
    and "json_loads e (r_text r) = Inr items"
    and "getitem items ''result'' = Inr json_data"
    and "is_dict json_data"
    and "getitem json_data ''results'' = Inr page_results"
    and "getitem0 page_results = Inr first"
    and "getitem first ''ui'' = Inr (JStr ''NONE'')"
  shows "search_term e self s vocab idt n as_df log
           = (Inr (if as_df then Table \<lparr>columns = [], rows = []\<rparr> else Records []),
              log2 @ [(page_request s st 1 vocab idt, Inr r)])"
proof -
  have "search_term_loop e (auth self) tgt s vocab idt n 0 [] log1
          = (Inr [], log2 @ [(page_request s st 1 vocab idt, Inr r)])"
    using assms(2-9) by (subst search_term_loop.simps) (simp add: send_def)
  with assms(1) show ?thesis
    by (simp add: search_term_def slice0_def get_df_def pd_DataFrame_def)
qed

theorem search_term_sentinel_witness:
  "fst (search_term example (searchUMLS_init ''good-key'') ''nothing'' None ''concept'' 10 True [])
     = Inr (Table \<lparr>columns = [], rows = []\<rparr>) \<and>
   length (snd (search_term example (searchUMLS_init ''good-key'') ''nothing'' None ''concept'' 10 True [])) = 3"
proof -
  let ?self = "searchUMLS_init ''good-key''"
  let ?tgt = "''https://utslogin.nlm.nih.gov/cas/v1/api-key/TGT-1''"
  let ?log1 = "[(tgt_request (auth ?self), ok ''FORM'')]"
  let ?log2 = "?log1 @ [(st_request (auth ?self) ?tgt, ok ''ST-1'')]"
  let ?first = "JDict [(''ui'', JStr ''NONE''), (''name'', JStr ''NO RESULTS'')]"
  let ?data = "JDict [(''classType'', JStr ''searchResults''), (''results'', JList [?first])]"
  have 1: "get_tgt example (auth ?self) [] = (Inr ?tgt, ?log1)" by code_simp
  have 2: "get_st example (auth ?self) ?tgt ?log1 = (Inr ''ST-1'', ?log2)" by code_simp
  have 3: "server example ?log2 (page_request ''nothing'' ''ST-1'' 1 None ''concept'')
             = Inr \<lparr>status_code = 200, r_text = ''NONE''\<rparr>" by code_simp
  have 4: "json_loads example (r_text \<lparr>status_code = 200, r_text = ''NONE''\<rparr>) = Inr (result_page [?first])"
    by code_simp
  have 5: "getitem (result_page [?first]) ''result'' = Inr ?data" by code_simp
  have 6: "is_dict ?data" by simp
  have 7: "getitem ?data ''results'' = Inr (JList [?first])" by simp
  have 8: "getitem0 (JList [?first]) = Inr ?first" by simp
  have 9: "getitem ?first ''ui'' = Inr (JStr ''NONE'')" by simp
  from search_term_sentinel [OF 1 2 3 4 5 6 7 8 9, of 10 True]
  show ?thesis by simp
qed

text \<open>
  C10: when a page fetched during a term search is a page object whose list of results is
  empty, reading its first result raises IndexError: the search returns no results, not
  even those of the pages before.
\<close>

theorem search_term_empty_page_raises:
  assumes "search_term e self s vocab idt n as_df log = (res, log')"
    and "\<exists>ex \<in> set (drop (length log) log'). empty_page e ex"
  shows "res = Inl IndexError"
proof -
  obtain t log1 where tgt: "get_tgt e (auth self) log = (t, log1)"
    by (cases "get_tgt e (auth self) log")
  then have log1: "log1 = log @ [(tgt_request (auth self), server e log (tgt_request (auth self)))]"
    by (rule get_tgt_log)
  show ?thesis
  proof (cases t)
    case (Inl x)
    with assms(1) tgt have "log' = log1" by (simp add: search_term_def)
    with assms(2) log1 show ?thesis
      by (simp add: tgt_request_def)
  next
    case (Inr ticket)
    obtain lres log2 where
      loop: "search_term_loop e (auth self) ticket s vocab idt n 0 [] log1 = (lres, log2)"
      by (cases "search_term_loop e (auth self) ticket s vocab idt n 0 [] log1")
    then obtain new where new: "log2 = log1 @ new"
      and raises: "(\<exists>ex \<in> set new. empty_page e ex) \<longrightarrow> lres = Inl IndexError"
      using search_term_loop_empty_page by blast
    from assms(1) tgt Inr loop have log': "log' = log2"
      by (auto simp: search_term_def split: sum.splits if_splits)
    with assms(2) new log1 have "\<exists>ex \<in> set new. empty_page e ex"
      by (simp add: tgt_request_def)
    with raises have "lres = Inl IndexError" by simp
    with assms(1) tgt Inr loop show ?thesis
      by (simp add: search_term_def)
  qed
qed

theorem search_term_empty_page_raises_witness:
  "empty_page example (last (snd (search_term example (searchUMLS_init ''good-key'') ''broken'' None
                                    ''concept'' 10 True []))) \<and>
   fst (search_term example (searchUMLS_init ''good-key'') ''broken'' None ''concept'' 10 True [])
     = Inl IndexError"
proof -
  let ?run = "search_term example (searchUMLS_init ''good-key'') ''broken'' None ''concept'' 10 True []"
  have run: "?run = (fst ?run, snd ?run)" by simp
  have last: "empty_page example (last (snd ?run))" by code_simp
  have mem: "last (snd ?run) \<in> set (drop (length ([]::history)) (snd ?run))"
    by code_simp
  from search_term_empty_page_raises [OF run] mem last
  show ?thesis by blast
qed

section \<open>Concept lookup\<close>

lemma resolved_post [simp]: "resolved e (Post url d hs, res) = []"
  by simp














section \<open>Table flattening\<close>


lemma convert_Keep [simp]: "convert Keep c = c"
  by simp
























end
